theory Spec2Isabelle
  imports Main
begin

section \<open>JavaScript values\<close>

text \<open>
  Response bodies, header values and the loosely typed constructor arguments of the
  error classes (\<^verbatim>\<open>unknown\<close>, \<^verbatim>\<open>any\<close>) are JavaScript values. Numbers are the integers
  the program handles (status codes, seconds) plus \<^verbatim>\<open>NaN\<close>, which \<^verbatim>\<open>parseInt\<close> returns on a
  string without digits. An object is its list of own properties; the first entry of a
  name is the one that is read.
\<close>

datatype jsval =
    JUndefined
  | JNull
  | JBool bool
  | JNum int
  | JNaN
  | JStr string
  | JArr "jsval list"
  | JObj "(string \<times> jsval) list"

text \<open>The truthiness test of \<^verbatim>\<open>if (v)\<close>, \<^verbatim>\<open>v && ...\<close>, \<^verbatim>\<open>v || ...\<close> and \<^verbatim>\<open>v ? a : b\<close>.\<close>

fun truthy :: "jsval \<Rightarrow> bool" where
  "truthy JUndefined = False"
| "truthy JNull = False"
| "truthy (JBool b) = b"
| "truthy (JNum n) = (n \<noteq> 0)"
| "truthy JNaN = False"
| "truthy (JStr s) = (s \<noteq> [])"
| "truthy (JArr xs) = True"
| "truthy (JObj kvs) = True"

text \<open>\<^verbatim>\<open>typeof v === 'object'\<close> (true of \<^verbatim>\<open>null\<close> and of arrays as well).\<close>

fun typeof_object :: "jsval \<Rightarrow> bool" where
  "typeof_object JNull = True"
| "typeof_object (JArr xs) = True"
| "typeof_object (JObj kvs) = True"
| "typeof_object v = False"

text \<open>
  \<^verbatim>\<open>k in v\<close> and \<^verbatim>\<open>v.k\<close> for the property names this program reads
  (\<^verbatim>\<open>response\<close>, \<^verbatim>\<open>errors\<close>, \<^verbatim>\<open>message\<close>, \<^verbatim>\<open>code\<close>, \<^verbatim>\<open>status\<close>, \<^verbatim>\<open>data\<close>): none of
  them is a built-in property of an array, a string, a number or a boolean, so only an
  object can hold one.
\<close>

fun has_prop :: "string \<Rightarrow> jsval \<Rightarrow> bool" where
  "has_prop k (JObj kvs) = (map_of kvs k \<noteq> None)"
| "has_prop k v = False"

fun get_prop :: "jsval \<Rightarrow> string \<Rightarrow> jsval" where
  "get_prop (JObj kvs) k = (case map_of kvs k of None \<Rightarrow> JUndefined | Some v \<Rightarrow> v)"
| "get_prop v k = JUndefined"

text \<open>\<^verbatim>\<open>v[0]\<close>: the first element of an array, the first character of a string.\<close>

fun index0 :: "jsval \<Rightarrow> jsval" where
  "index0 (JArr []) = JUndefined"
| "index0 (JArr (x # xs)) = x"
| "index0 (JStr []) = JUndefined"
| "index0 (JStr (c # cs)) = JStr [c]"
| "index0 (JObj kvs) = (case map_of kvs ''0'' of None \<Rightarrow> JUndefined | Some v \<Rightarrow> v)"
| "index0 v = JUndefined"

text \<open>Optional chaining: \<^verbatim>\<open>v?.k\<close> and \<^verbatim>\<open>v?.[0]\<close> are \<^verbatim>\<open>undefined\<close> on \<^verbatim>\<open>null\<close> and \<^verbatim>\<open>undefined\<close>.\<close>

fun nullish :: "jsval \<Rightarrow> bool" where
  "nullish JUndefined = True"
| "nullish JNull = True"
| "nullish v = False"

definition opt_prop :: "jsval \<Rightarrow> string \<Rightarrow> jsval" where
  "opt_prop v k = (if nullish v then JUndefined else get_prop v k)"

definition opt_index0 :: "jsval \<Rightarrow> jsval" where
  "opt_index0 v = (if nullish v then JUndefined else index0 v)"

subsection \<open>Numbers and strings\<close>

definition digit_char :: "nat \<Rightarrow> char" where
  "digit_char n = (''0123456789'' ! (n mod 10))"

function string_of_nat :: "nat \<Rightarrow> string" where
  "string_of_nat n =
     (if n < 10 then [digit_char n] else string_of_nat (n div 10) @ [digit_char (n mod 10)])"
  by pat_completeness auto
termination
  by (relation "measure id") auto

definition string_of_int :: "int \<Rightarrow> string" where
  "string_of_int i = (if i < 0 then CHR ''-'' # string_of_nat (nat (- i)) else string_of_nat (nat i))"

text \<open>\<^verbatim>\<open>String(v)\<close>, which is also what a template literal and the \<^verbatim>\<open>Error\<close> constructor apply.\<close>

fun join_comma :: "string list \<Rightarrow> string" where
  "join_comma [] = []"
| "join_comma [s] = s"
| "join_comma (s # t # ss) = s @ '','' @ join_comma (t # ss)"

fun String_js :: "jsval \<Rightarrow> string" where
  "String_js JUndefined = ''undefined''"
| "String_js JNull = ''null''"
| "String_js (JBool b) = (if b then ''true'' else ''false'')"
| "String_js (JNum n) = string_of_int n"
| "String_js JNaN = ''NaN''"
| "String_js (JStr s) = s"
| "String_js (JArr xs) =
     join_comma (map (\<lambda>x. if x = JUndefined \<or> x = JNull then [] else String_js x) xs)"
| "String_js (JObj kvs) = ''[object Object]''"

text \<open>
  \<^verbatim>\<open>parseInt(s, 10)\<close>: leading white space is skipped, one sign is read, then the longest
  run of decimal digits; with no digit the result is \<^verbatim>\<open>NaN\<close>. The white space is the ASCII
  one (a header value is ASCII), and the result is the exact integer, which is what
  JavaScript returns up to \<open>2 ^ 53\<close>.
\<close>

definition is_space :: "char \<Rightarrow> bool" where
  "is_space c = (c \<in> set [CHR '' '', CHR 0x09, CHR 0x0A, CHR 0x0B, CHR 0x0C, CHR 0x0D])"

definition is_digit :: "char \<Rightarrow> bool" where
  "is_digit c = (c \<in> set ''0123456789'')"

definition digit_value :: "char \<Rightarrow> int" where
  "digit_value c = of_char c - 48"

definition digits_value :: "string \<Rightarrow> int" where
  "digits_value ds = foldl (\<lambda>a c. 10 * a + digit_value c) 0 ds"

definition parseInt10 :: "string \<Rightarrow> jsval" where
  "parseInt10 s =
     (let s1 = dropWhile is_space s;
          neg = (case s1 of c # cs \<Rightarrow> c = CHR ''-'' | [] \<Rightarrow> False);
          s2 = (case s1 of c # cs \<Rightarrow> if c = CHR ''-'' \<or> c = CHR ''+'' then cs else s1 | [] \<Rightarrow> s1);
          ds = takeWhile is_digit s2
      in if ds = [] then JNaN
         else JNum (if neg then - digits_value ds else digits_value ds))"

definition string_includes :: "string \<Rightarrow> string \<Rightarrow> bool" where
  "string_includes s p = list_ex (\<lambda>i. take (length p) (drop i s) = p) [0 ..< Suc (length s)]"

section \<open>Error taxonomy\<close>

text \<open>
  What the HTTP library rejects a request with: an error object, read through its
  \<^verbatim>\<open>isAxiosError\<close> property (\<open>None\<close>: the object has no such property), its \<^verbatim>\<open>response\<close>,
  \<^verbatim>\<open>code\<close> and \<^verbatim>\<open>message\<close> properties (\<open>None\<close>: absent or \<^verbatim>\<open>undefined\<close>, which the code
  treats alike) and through \<^verbatim>\<open>String(error)\<close>. A response carries its status, its body and
  its headers, with lower-case names.
\<close>

record AxiosResponse =
  status :: int
  data :: jsval
  headers :: "(string \<times> string) list option"

record RawError =
  isAxiosError_prop :: "jsval option"
  response :: "AxiosResponse option"
  code :: "string option"
  message :: "string option"
  toString :: string

text \<open>The body of a token response, typed as \<^verbatim>\<open>UPSTokenResponse\<close>; the code tests \<^verbatim>\<open>access_token\<close> for absence.\<close>

record UPSTokenResponse =
  access_token :: "string option"
  token_type :: string
  expires_in :: int

text \<open>
  The classes of \<^verbatim>\<open>domain/models/error\<close>. Each constructor takes its arguments in the order of
  the class's TypeScript constructor:
  \<^item> \<^verbatim>\<open>CarrierAuthError(message, carrier?, originalError?)\<close>
  \<^item> \<^verbatim>\<open>CarrierNetworkError(message, statusCode?, carrier?, originalError?)\<close>
  \<^item> \<^verbatim>\<open>CarrierValidationError(message, validationErrors?, carrier?)\<close>
  \<^item> \<^verbatim>\<open>CarrierRateLimitError(message, retryAfter?, carrier?, originalError?)\<close>
  \<^item> \<^verbatim>\<open>CarrierResponseError(message, response?, carrier?, originalError?)\<close>
  \<^item> \<^verbatim>\<open>CarrierBusinessError(message, code, carrier?, originalError?)\<close>
  \<^item> \<^verbatim>\<open>CarrierConfigError(message, missingFields?)\<close>
  An omitted optional argument is \<open>JUndefined\<close>, respectively \<open>None\<close>.
\<close>

datatype cause =
    CauseVal jsval
  | CauseRaw RawError
  | CauseToken UPSTokenResponse
  | CauseErr CarrierError
and CarrierError =
    CarrierAuthError string jsval "cause option"
  | CarrierNetworkError string jsval jsval "cause option"
  | CarrierValidationError string "(string \<times> string list) list option" jsval
  | CarrierRateLimitError string jsval jsval "cause option"
  | CarrierResponseError string jsval jsval "cause option"
  | CarrierBusinessError string string jsval "cause option"
  | CarrierConfigError string "string list option"

datatype ErrorKind = Auth | Network | Validation | RateLimit | Response | Business | Config

fun kind :: "CarrierError \<Rightarrow> ErrorKind" where
  "kind (CarrierAuthError m c oe) = Auth"
| "kind (CarrierNetworkError m sc c oe) = Network"
| "kind (CarrierValidationError m ve c) = Validation"
| "kind (CarrierRateLimitError m ra c oe) = RateLimit"
| "kind (CarrierResponseError m r c oe) = Response"
| "kind (CarrierBusinessError m cd c oe) = Business"
| "kind (CarrierConfigError m mf) = Config"

text \<open>\<^verbatim>\<open>this.name = this.constructor.name\<close>\<close>

fun name :: "CarrierError \<Rightarrow> string" where
  "name (CarrierAuthError m c oe) = ''CarrierAuthError''"
| "name (CarrierNetworkError m sc c oe) = ''CarrierNetworkError''"
| "name (CarrierValidationError m ve c) = ''CarrierValidationError''"
| "name (CarrierRateLimitError m ra c oe) = ''CarrierRateLimitError''"
| "name (CarrierResponseError m r c oe) = ''CarrierResponseError''"
| "name (CarrierBusinessError m cd c oe) = ''CarrierBusinessError''"
| "name (CarrierConfigError m mf) = ''CarrierConfigError''"

fun message_of :: "CarrierError \<Rightarrow> string" where
  "message_of (CarrierAuthError m c oe) = m"
| "message_of (CarrierNetworkError m sc c oe) = m"
| "message_of (CarrierValidationError m ve c) = m"
| "message_of (CarrierRateLimitError m ra c oe) = m"
| "message_of (CarrierResponseError m r c oe) = m"
| "message_of (CarrierBusinessError m cd c oe) = m"
| "message_of (CarrierConfigError m mf) = m"

text \<open>The \<^verbatim>\<open>code\<close> each class hands to \<^verbatim>\<open>super(message, code, carrier, originalError)\<close>.\<close>

fun code_of :: "CarrierError \<Rightarrow> string" where
  "code_of (CarrierAuthError m c oe) = ''AUTH_ERROR''"
| "code_of (CarrierNetworkError m sc c oe) = ''NETWORK_ERROR''"
| "code_of (CarrierValidationError m ve c) = ''VALIDATION_ERROR''"
| "code_of (CarrierRateLimitError m ra c oe) = ''RATE_LIMIT_ERROR''"
| "code_of (CarrierResponseError m r c oe) = ''RESPONSE_ERROR''"
| "code_of (CarrierBusinessError m cd c oe) = cd"
| "code_of (CarrierConfigError m mf) = ''CONFIG_ERROR''"

fun carrier_of :: "CarrierError \<Rightarrow> jsval" where
  "carrier_of (CarrierAuthError m c oe) = c"
| "carrier_of (CarrierNetworkError m sc c oe) = c"
| "carrier_of (CarrierValidationError m ve c) = c"
| "carrier_of (CarrierRateLimitError m ra c oe) = c"
| "carrier_of (CarrierResponseError m r c oe) = c"
| "carrier_of (CarrierBusinessError m cd c oe) = c"
| "carrier_of (CarrierConfigError m mf) = JUndefined"

fun originalError :: "CarrierError \<Rightarrow> cause option" where
  "originalError (CarrierAuthError m c oe) = oe"
| "originalError (CarrierNetworkError m sc c oe) = oe"
| "originalError (CarrierValidationError m ve c) = None"
| "originalError (CarrierRateLimitError m ra c oe) = oe"
| "originalError (CarrierResponseError m r c oe) = oe"
| "originalError (CarrierBusinessError m cd c oe) = oe"
| "originalError (CarrierConfigError m mf) = None"

text \<open>The fields the subclasses add; on another class the property is absent.\<close>

fun statusCode :: "CarrierError \<Rightarrow> jsval" where
  "statusCode (CarrierNetworkError m sc c oe) = sc"
| "statusCode e = JUndefined"

fun retryAfter :: "CarrierError \<Rightarrow> jsval" where
  "retryAfter (CarrierRateLimitError m ra c oe) = ra"
| "retryAfter e = JUndefined"

fun response_of :: "CarrierError \<Rightarrow> jsval" where
  "response_of (CarrierResponseError m r c oe) = r"
| "response_of e = JUndefined"

text \<open>\<^verbatim>\<open>String(error)\<close> of an \<^verbatim>\<open>Error\<close> instance: its name, a colon and its message.\<close>

definition CarrierError_toString :: "CarrierError \<Rightarrow> string" where
  "CarrierError_toString e =
     (if message_of e = [] then name e else name e @ '': '' @ message_of e)"

text \<open>A value a promise rejects with: a library error object or one of the classes above.\<close>

datatype thrown = Raw RawError | Carrier CarrierError

text \<open>
  \<^verbatim>\<open>axios.isAxiosError(e)\<close> holds of an object whose \<^verbatim>\<open>isAxiosError\<close> property is exactly
  \<^verbatim>\<open>true\<close>. No class of the taxonomy has that property.
\<close>

definition axios_isAxiosError :: "RawError \<Rightarrow> bool" where
  "axios_isAxiosError e = (isAxiosError_prop e = Some (JBool True))"

definition js_of_string_option :: "string option \<Rightarrow> jsval" where
  "js_of_string_option s = (case s of None \<Rightarrow> JUndefined | Some t \<Rightarrow> JStr t)"

text \<open>\<^verbatim>\<open>${s}\<close> for a string that may be \<^verbatim>\<open>undefined\<close>, and \<^verbatim>\<open>s || d\<close>.\<close>

definition template_string :: "string option \<Rightarrow> string" where
  "template_string s = (case s of None \<Rightarrow> ''undefined'' | Some t \<Rightarrow> t)"

definition string_or :: "string option \<Rightarrow> string \<Rightarrow> string" where
  "string_or s d = (case s of None \<Rightarrow> d | Some t \<Rightarrow> if t = [] then d else t)"


section \<open>HttpClient\<close>

record HttpClientConfig =
  cfg_baseURL :: "string option"
  cfg_timeout :: "int option"
  cfg_maxRetries :: "int option"
  cfg_retryDelay :: "int option"

record HttpClient =
  maxRetries :: int
  retryDelay :: int
  baseURL :: string
  timeout :: int

text \<open>\<^verbatim>\<open>n || d\<close> on an optional number: \<^verbatim>\<open>undefined\<close> and \<^verbatim>\<open>0\<close> are both falsy.\<close>

definition number_or :: "int option \<Rightarrow> int \<Rightarrow> int" where
  "number_or n d = (case n of None \<Rightarrow> d | Some v \<Rightarrow> if v = 0 then d else v)"

text \<open>
  The constructor. It also installs the response interceptor
  \<^verbatim>\<open>(response) => response, (error) => this.handleError(error)\<close>, which is \<open>client_request\<close> below.
\<close>

definition new_HttpClient :: "HttpClientConfig \<Rightarrow> HttpClient" where
  "new_HttpClient config =
     \<lparr> maxRetries = number_or (cfg_maxRetries config) 3,
       retryDelay = number_or (cfg_retryDelay config) 1000,
       baseURL = (case cfg_baseURL config of None \<Rightarrow> [] | Some u \<Rightarrow> u),
       timeout = number_or (cfg_timeout config) 30000 \<rparr>"

definition network_codes :: "string list" where
  "network_codes = [''ECONNABORTED'', ''ETIMEDOUT'', ''ENOTFOUND'', ''ECONNREFUSED'']"

text \<open>
  \<^verbatim>\<open>shouldRetry\<close>. Both branches (a library error, and an object that merely has an
  \<^verbatim>\<open>isAxiosError\<close> property) run the same three tests: \<^verbatim>\<open>status && status >= 500\<close>,
  \<^verbatim>\<open>status === 429\<close>, and \<^verbatim>\<open>code\<close> among the network codes.
\<close>

definition retry_tests :: "RawError \<Rightarrow> bool" where
  "retry_tests e =
     (let st = map_option status (response e) in
      if (case st of None \<Rightarrow> False | Some n \<Rightarrow> n \<noteq> 0 \<and> n \<ge> 500) then True
      else if st = Some 429 then True
      else if (case code e of None \<Rightarrow> False | Some c \<Rightarrow> c \<noteq> [] \<and> c \<in> set network_codes) then True
      else False)"

fun shouldRetry :: "thrown \<Rightarrow> bool" where
  "shouldRetry (Raw e) =
     (if \<not> axios_isAxiosError e then
        (if isAxiosError_prop e \<noteq> None then retry_tests e else False)
      else retry_tests e)"
| "shouldRetry (Carrier e) = False"

text \<open>\<^verbatim>\<open>(data as any).response?.errors?.[0]\<close>\<close>

definition first_ups_error :: "jsval \<Rightarrow> jsval" where
  "first_ups_error d = opt_index0 (opt_prop (get_prop d ''response'') ''errors'')"

definition retry_after_header :: "RawError \<Rightarrow> string option" where
  "retry_after_header e =
     (case response e of None \<Rightarrow> None
      | Some r \<Rightarrow> (case headers r of None \<Rightarrow> None | Some h \<Rightarrow> map_of h ''retry-after''))"

text \<open>\<^verbatim>\<open>retryAfter ? parseInt(retryAfter, 10) : undefined\<close>\<close>

definition parsed_retry_after :: "RawError \<Rightarrow> cause option" where
  "parsed_retry_after e =
     (case retry_after_header e of None \<Rightarrow> None
      | Some h \<Rightarrow> if h = [] then None else Some (CauseVal (parseInt10 h)))"

text \<open>
  \<^verbatim>\<open>handleError\<close>, the rejection handler of the response interceptor. Every branch throws;
  the model returns the error thrown. The first block is the branch of
  \<^verbatim>\<open>axios.isAxiosError(error)\<close>, the second the branch of an object with a truthy
  \<^verbatim>\<open>isAxiosError\<close> property, the last the unknown error type.
\<close>

definition handleError :: "RawError \<Rightarrow> CarrierError" where
  "handleError e =
     (let st = map_option status (response e);
          dat = (case response e of None \<Rightarrow> JUndefined | Some r \<Rightarrow> data r);
          cd = js_of_string_option (code e);
          ups = first_ups_error dat
      in
      if axios_isAxiosError e then
        (if st = Some 429 then
           CarrierRateLimitError ''Request rate limited'' (JStr ''UNKNOWN'') cd (parsed_retry_after e)
         else if (case st of None \<Rightarrow> False | Some n \<Rightarrow> n \<noteq> 0 \<and> n \<ge> 500) then
           CarrierNetworkError (''Server error: '' @ template_string (message e))
             (JStr ''UNKNOWN'') cd (map_option (\<lambda>n. CauseVal (JNum n)) st)
         else if (case st of None \<Rightarrow> False | Some n \<Rightarrow> n \<noteq> 0 \<and> n \<ge> 400 \<and> n < 500) then
           (if truthy dat \<and> typeof_object dat \<and> has_prop ''response'' dat \<and> truthy ups then
              CarrierBusinessError
                (if truthy (get_prop ups ''message'') then String_js (get_prop ups ''message'')
                 else ''Business validation error'')
                ''UPS'' (get_prop ups ''code'') (Some (CauseVal dat))
            else
              CarrierResponseError (''Client error: '' @ template_string (message e))
                (JStr ''UNKNOWN'') cd (Some (CauseVal dat)))
         else if response e = None then
           CarrierNetworkError (''Network error: '' @ template_string (message e))
             (JStr ''UNKNOWN'') cd None
         else
           CarrierNetworkError (case message e of None \<Rightarrow> [] | Some m \<Rightarrow> m)
             (JStr ''UNKNOWN'') cd (map_option (\<lambda>n. CauseVal (JNum n)) st))
      else if (case isAxiosError_prop e of None \<Rightarrow> False | Some v \<Rightarrow> truthy v) then
        (if st = Some 429 then
           CarrierRateLimitError ''Request rate limited'' (JStr ''UNKNOWN'') cd (parsed_retry_after e)
         else if (case st of None \<Rightarrow> False | Some n \<Rightarrow> n \<noteq> 0 \<and> n \<ge> 500) then
           CarrierNetworkError (''Server error: '' @ string_or (message e) ''Unknown server error'')
             (JStr ''UNKNOWN'') cd (map_option (\<lambda>n. CauseVal (JNum n)) st)
         else if (case st of None \<Rightarrow> False | Some n \<Rightarrow> n \<noteq> 0 \<and> n \<ge> 400 \<and> n < 500) then
           (if truthy dat \<and> typeof_object dat \<and> has_prop ''response'' dat \<and> truthy ups then
              CarrierBusinessError
                (if truthy (get_prop ups ''message'') then String_js (get_prop ups ''message'')
                 else ''Business validation error'')
                ''UPS'' (get_prop ups ''code'') (Some (CauseVal dat))
            else
              CarrierResponseError (''Client error: '' @ string_or (message e) ''Unknown client error'')
                (JStr ''UNKNOWN'') cd (Some (CauseVal dat)))
         else if code e = Some ''ECONNABORTED''
                 \<or> (case message e of None \<Rightarrow> False | Some m \<Rightarrow> m \<noteq> [] \<and> string_includes m ''timeout'') then
           CarrierNetworkError (''Request timeout: '' @ string_or (message e) ''Connection timeout'')
             (JStr ''UNKNOWN'') cd None
         else if response e = None then
           CarrierNetworkError (''Network error: '' @ string_or (message e) ''Unknown network error'')
             (JStr ''UNKNOWN'') cd None
         else
           CarrierNetworkError (string_or (message e) ''Unknown error'') (JStr ''UNKNOWN'') cd
             (map_option (\<lambda>n. CauseVal (JNum n)) st))
      else
        CarrierNetworkError (''Unexpected error: '' @ toString e) (JStr ''UNKNOWN'')
          (JStr ''UNKNOWN'') None)"

text \<open>
  One exchange through the client instance: \<open>wire k\<close> is what the \<open>k\<close>-th exchange on the
  wire ends with, and a rejection passes through the response interceptor, so the caller
  of \<^verbatim>\<open>this.client.get\<close> is rejected with what \<^verbatim>\<open>handleError\<close> throws.
\<close>

definition client_request ::
  "(nat \<Rightarrow> RawError + AxiosResponse) \<Rightarrow> nat \<Rightarrow> thrown + AxiosResponse" where
  "client_request wire k =
     (case wire k of Inr r \<Rightarrow> Inr r | Inl e \<Rightarrow> Inl (Carrier (handleError e)))"

text \<open>What a logical request has done: the exchanges it made and the delays it slept, in order.\<close>

record RetryTrace =
  calls :: nat
  sleeps :: "int list"

text \<open>
  \<^verbatim>\<open>requestWithRetry(requestFn, retryCount)\<close>: \<open>requestFn k\<close> is the outcome of the \<open>k\<close>-th
  invocation of the request function.
\<close>

function requestWithRetry ::
  "HttpClient \<Rightarrow> (nat \<Rightarrow> thrown + AxiosResponse) \<Rightarrow> nat \<Rightarrow> RetryTrace
     \<Rightarrow> RetryTrace \<times> (thrown + AxiosResponse)" where
  "requestWithRetry c requestFn retryCount t =
     (case requestFn (calls t) of
        Inr r \<Rightarrow> (t\<lparr>calls := calls t + 1\<rparr>, Inr r)
      | Inl error \<Rightarrow>
          if int retryCount < maxRetries c \<and> shouldRetry error then
            requestWithRetry c requestFn (retryCount + 1)
              (t\<lparr>calls := calls t + 1,
                 sleeps := sleeps t @ [retryDelay c * 2 ^ retryCount]\<rparr>)
          else (t\<lparr>calls := calls t + 1\<rparr>, Inl error))"
  by pat_completeness auto
termination
  by (relation "measure (\<lambda>(c, requestFn, retryCount, t). nat (maxRetries c - int retryCount))") auto

text \<open>\<^verbatim>\<open>get\<close>, \<^verbatim>\<open>post\<close>, \<^verbatim>\<open>put\<close> and \<^verbatim>\<open>delete\<close> all are \<^verbatim>\<open>requestWithRetry(() => this.client.<method>(...))\<close>.\<close>

definition HttpClient_request ::
  "HttpClient \<Rightarrow> (nat \<Rightarrow> RawError + AxiosResponse) \<Rightarrow> RetryTrace \<times> (thrown + AxiosResponse)" where
  "HttpClient_request c wire = requestWithRetry c (client_request wire) 0 \<lparr>calls = 0, sleeps = []\<rparr>"

section \<open>UPSAuthProvider\<close>

record AuthToken =
  accessToken :: string
  tokenType :: string
  expiresIn :: int
  expiresAt :: int

record UPSAuthConfig =
  clientId :: string
  clientSecret :: string
  tokenUrl :: string
  cfg_auth_timeout :: "int option"

text \<open>
  The provider's fields. \<open>tokenPromise\<close> holds the identity of the promise of the
  acquisition in flight; \<open>httpTimeout\<close> is the timeout the constructor gives to
  \<^verbatim>\<open>axios.create\<close>.
\<close>

record UPSAuthProvider =
  config :: UPSAuthConfig
  httpTimeout :: int
  cachedToken :: "AuthToken option"
  tokenPromise :: "nat option"

definition REFRESH_BUFFER_SECONDS :: int where
  "REFRESH_BUFFER_SECONDS = 300"

definition new_UPSAuthProvider :: "UPSAuthConfig \<Rightarrow> UPSAuthProvider" where
  "new_UPSAuthProvider cfg =
     \<lparr> config = cfg,
       httpTimeout = number_or (cfg_auth_timeout cfg) 10000,
       cachedToken = None,
       tokenPromise = None \<rparr>"

text \<open>In the next three, \<open>now\<close> is \<^verbatim>\<open>Math.floor(Date.now() / 1000)\<close> at the moment of the call.\<close>

definition hasValidToken :: "int \<Rightarrow> UPSAuthProvider \<Rightarrow> bool" where
  "hasValidToken now a =
     (case cachedToken a of
        None \<Rightarrow> False
      | Some tok \<Rightarrow> now < expiresAt tok - REFRESH_BUFFER_SECONDS)"

definition getTimeUntilExpiry :: "int \<Rightarrow> UPSAuthProvider \<Rightarrow> int" where
  "getTimeUntilExpiry now a =
     (case cachedToken a of
        None \<Rightarrow> 0
      | Some tok \<Rightarrow> max 0 (expiresAt tok - now))"

definition clearToken :: "UPSAuthProvider \<Rightarrow> UPSAuthProvider" where
  "clearToken a = a\<lparr>cachedToken := None\<rparr>"

text \<open>
  The \<^verbatim>\<open>catch\<close> block of \<^verbatim>\<open>acquireToken\<close>: the error it throws for the value it caught
  (it first sets \<^verbatim>\<open>cachedToken\<close> to \<^verbatim>\<open>null\<close>, see \<open>acquireToken_resume\<close>). For a library
  error object, the first block is the branch of \<^verbatim>\<open>axios.isAxiosError\<close> and the second the
  branch of \<^verbatim>\<open>'response' in error\<close>. Of the taxonomy, only a \<^verbatim>\<open>CarrierResponseError\<close> has a
  \<^verbatim>\<open>response\<close> property.
\<close>

fun acquireToken_catch :: "thrown \<Rightarrow> CarrierError" where
  "acquireToken_catch (Raw e) =
     (let st = map_option status (response e);
          dat = map_option (\<lambda>r. CauseVal (data r)) (response e)
      in
      if axios_isAxiosError e then
        (if st = Some 401 \<or> st = Some 403 then
           CarrierAuthError
             (''Authentication failed: Invalid credentials ('' @ (case st of None \<Rightarrow> ''undefined'' | Some n \<Rightarrow> string_of_int n) @ '')'')
             (JStr ''UPS'') dat
         else if st = Some 429 then
           CarrierAuthError ''Authentication rate limited by UPS'' (JStr ''UPS'') dat
         else if response e = None then
           CarrierAuthError (''Failed to acquire token: '' @ template_string (message e))
             (JStr ''UPS'') (Some (CauseRaw e))
         else
           CarrierAuthError (''Failed to acquire token: '' @ template_string (message e))
             (JStr ''UPS'') (Some (CauseRaw e)))
      else if response e \<noteq> None \<and> (st = Some 401 \<or> st = Some 403) then
        CarrierAuthError
          (''Authentication failed: Invalid credentials ('' @ (case st of None \<Rightarrow> ''undefined'' | Some n \<Rightarrow> string_of_int n) @ '')'')
          (JStr ''UPS'') dat
      else if response e \<noteq> None \<and> st = Some 429 then
        CarrierAuthError ''Authentication rate limited by UPS'' (JStr ''UPS'') dat
      else
        CarrierAuthError (''Unexpected error during token acquisition: '' @ toString e)
          (JStr ''UPS'') (Some (CauseRaw e)))"
| "acquireToken_catch (Carrier e) =
     (let st = opt_prop (response_of e) ''status'';
          dat = opt_prop (response_of e) ''data''
      in
      if kind e = Response \<and> (st = JNum 401 \<or> st = JNum 403) then
        CarrierAuthError
          (''Authentication failed: Invalid credentials ('' @ String_js st @ '')'')
          (JStr ''UPS'') (Some (CauseVal dat))
      else if kind e = Response \<and> st = JNum 429 then
        CarrierAuthError ''Authentication rate limited by UPS'' (JStr ''UPS'') (Some (CauseVal dat))
      else
        CarrierAuthError
          (''Unexpected error during token acquisition: '' @ CarrierError_toString e)
          (JStr ''UPS'') (Some (CauseErr e)))"

text \<open>
  \<^verbatim>\<open>acquireToken\<close> after its \<^verbatim>\<open>await\<close>: the exchange has ended with \<open>outcome\<close> (the body
  of the response, or the value the POST was rejected with) and the clock reads \<open>now\<close>.
  The result is what the promise of \<^verbatim>\<open>acquireToken\<close> settles with. The error for a missing
  \<^verbatim>\<open>access_token\<close> is thrown inside the \<^verbatim>\<open>try\<close> block, so the \<^verbatim>\<open>catch\<close> block receives it.
\<close>

definition missing_access_token :: "UPSTokenResponse \<Rightarrow> CarrierError" where
  "missing_access_token d =
     CarrierAuthError ''Invalid token response: missing access_token'' (JStr ''UPS'')
       (Some (CauseToken d))"

definition acquireToken_resume ::
  "int \<Rightarrow> thrown + UPSTokenResponse \<Rightarrow> UPSAuthProvider \<Rightarrow> (CarrierError + string) \<times> UPSAuthProvider" where
  "acquireToken_resume now outcome a =
     (case outcome of
        Inr d \<Rightarrow>
          (case access_token d of
             None \<Rightarrow>
               (Inl (acquireToken_catch (Carrier (missing_access_token d))), a\<lparr>cachedToken := None\<rparr>)
           | Some tok \<Rightarrow>
               if tok = [] then
                 (Inl (acquireToken_catch (Carrier (missing_access_token d))), a\<lparr>cachedToken := None\<rparr>)
               else
                 (Inr tok,
                  a\<lparr>cachedToken := Some
                      \<lparr> accessToken = tok,
                        tokenType = token_type d,
                        expiresIn = expires_in d,
                        expiresAt = now + expires_in d \<rparr>\<rparr>))
      | Inl error \<Rightarrow> (Inl (acquireToken_catch error), a\<lparr>cachedToken := None\<rparr>))"

subsection \<open>Asynchronous calls\<close>

text \<open>
  Execution is single-threaded and a call runs without interruption until it awaits. The
  provider together with what it has done to the network and to its promises:
  \<open>posts\<close> is the list of token exchanges issued (URL and body), \<open>inflight\<close> the promise
  of the acquisition whose exchange is on the wire and has not ended, \<open>settled\<close> maps the
  promise of an acquisition to what it settled with.
\<close>

record World =
  auth :: UPSAuthProvider
  posts :: "(string \<times> string) list"
  inflight :: "nat option"
  settled :: "nat \<rightharpoonup> (CarrierError + string)"

text \<open>
  What a caller of \<^verbatim>\<open>getToken\<close> holds when the call suspends or returns: the token of the
  cache, the shared promise it was handed (\<^verbatim>\<open>return this.tokenPromise\<close>), or the promise
  of the acquisition it has started itself and awaits. \<open>Rejected_TypeError\<close> stands for
  reading \<^verbatim>\<open>accessToken\<close> of \<^verbatim>\<open>null\<close>.
\<close>

datatype ticket =
    Resolved string
  | Awaiting nat
  | Owner nat
  | Rejected_TypeError

text \<open>
  \<^verbatim>\<open>acquireToken\<close> up to its \<^verbatim>\<open>await\<close>: the POST of \<^verbatim>\<open>grant_type=client_credentials\<close> to
  the token URL is issued; the promise is identified by the index of its exchange.
\<close>

definition acquireToken :: "World \<Rightarrow> nat \<times> World" where
  "acquireToken w =
     (length (posts w),
      w\<lparr>posts := posts w @ [(tokenUrl (config (auth w)), ''grant_type=client_credentials'')],
        inflight := Some (length (posts w))\<rparr>)"

text \<open>\<^verbatim>\<open>getToken\<close> up to its return or its \<^verbatim>\<open>await\<close>.\<close>

definition getToken :: "int \<Rightarrow> World \<Rightarrow> ticket \<times> World" where
  "getToken now w =
     (if hasValidToken now (auth w) then
        (case cachedToken (auth w) of
           Some tok \<Rightarrow> (Resolved (accessToken tok), w)
         | None \<Rightarrow> (Rejected_TypeError, w))
      else
        (case tokenPromise (auth w) of
           Some p \<Rightarrow> (Awaiting p, w)
         | None \<Rightarrow>
             (let (p, w1) = acquireToken w
              in (Owner p, w1\<lparr>auth := (auth w1)\<lparr>tokenPromise := Some p\<rparr>\<rparr>))))"

definition refreshToken :: "int \<Rightarrow> World \<Rightarrow> ticket \<times> World" where
  "refreshToken now w = getToken now (w\<lparr>auth := clearToken (auth w)\<rparr>)"

text \<open>
  The end of an acquisition takes two steps, and other calls can run between them.

  First the exchange in flight ends: \<^verbatim>\<open>acquireToken\<close> resumes, caches the token or clears the
  cache, and its promise settles. \<^verbatim>\<open>tokenPromise\<close> still holds that promise. With no exchange
  in flight nothing happens.
\<close>

definition exchange_ends :: "int \<Rightarrow> thrown + UPSTokenResponse \<Rightarrow> World \<Rightarrow> World" where
  "exchange_ends now outcome w =
     (case inflight w of
        None \<Rightarrow> w
      | Some p \<Rightarrow>
          (let (res, a1) = acquireToken_resume now outcome (auth w)
           in w\<lparr>auth := a1, inflight := None, settled := (settled w)(p \<mapsto> res)\<rparr>))"

text \<open>
  Then the caller that started the acquisition \<open>p\<close> resumes from \<^verbatim>\<open>await this.tokenPromise\<close>,
  which it can once \<open>p\<close> has settled, and its \<^verbatim>\<open>finally\<close> block sets \<^verbatim>\<open>tokenPromise\<close> to
  \<^verbatim>\<open>null\<close>.
\<close>

definition getToken_finally :: "UPSAuthProvider \<Rightarrow> UPSAuthProvider" where
  "getToken_finally a = a\<lparr>tokenPromise := None\<rparr>"

definition owner_resumes :: "nat \<Rightarrow> World \<Rightarrow> World" where
  "owner_resumes p w =
     (if settled w p = None then w else w\<lparr>auth := getToken_finally (auth w)\<rparr>)"

text \<open>Both steps with no call in between: the exchange ends and its owner resumes at once.\<close>

definition settle :: "int \<Rightarrow> thrown + UPSTokenResponse \<Rightarrow> World \<Rightarrow> World" where
  "settle now outcome w =
     (case inflight w of
        None \<Rightarrow> w
      | Some p \<Rightarrow> owner_resumes p (exchange_ends now outcome w))"

text \<open>What the caller holding a ticket observes: \<open>None\<close> while its promise is pending.\<close>

fun observed :: "World \<Rightarrow> ticket \<Rightarrow> (CarrierError + string) option" where
  "observed w (Resolved s) = Some (Inr s)"
| "observed w (Awaiting p) = settled w p"
| "observed w (Owner p) = settled w p"
| "observed w Rejected_TypeError = None"

text \<open>Calls issued one after the other, at the given clock readings, with no other step in between.\<close>

fun getToken_calls :: "int list \<Rightarrow> World \<Rightarrow> ticket list \<times> World" where
  "getToken_calls [] w = ([], w)"
| "getToken_calls (now # nows) w =
     (let (tk, w1) = getToken now w;
          (tks, w2) = getToken_calls nows w1
      in (tk # tks, w2))"

definition new_World :: "UPSAuthConfig \<Rightarrow> World" where
  "new_World cfg =
     \<lparr> auth = new_UPSAuthProvider cfg, posts = [], inflight = None, settled = Map.empty \<rparr>"

section \<open>Concrete inputs\<close>

text \<open>A client configured with \<^verbatim>\<open>maxRetries: 3\<close> and \<^verbatim>\<open>retryDelay: 1000\<close>.\<close>

definition client_3_1000 :: HttpClient where
  "client_3_1000 =
     new_HttpClient \<lparr> cfg_baseURL = Some ''https://wwwcie.ups.com/api'', cfg_timeout = Some 30000,
                      cfg_maxRetries = Some 3, cfg_retryDelay = Some 1000 \<rparr>"

text \<open>The library's error for a response of the given status, body and headers.\<close>

definition axios_error :: "int \<Rightarrow> jsval \<Rightarrow> (string \<times> string) list \<Rightarrow> RawError" where
  "axios_error st body hs =
     \<lparr> isAxiosError_prop = Some (JBool True),
       response = Some \<lparr> status = st, data = body, headers = Some hs \<rparr>,
       code = Some (if st \<ge> 500 then ''ERR_BAD_RESPONSE'' else ''ERR_BAD_REQUEST''),
       message = Some (''Request failed with status code '' @ string_of_int st),
       toString = ''AxiosError: Request failed with status code '' @ string_of_int st \<rparr>"

definition ups_error_body :: jsval where
  "ups_error_body =
     JObj [(''response'',
       JObj [(''errors'',
         JArr [JObj [(''code'', JStr ''111210''),
                     (''message'', JStr ''The requested service is unavailable'')]])])]"

definition test_config :: UPSAuthConfig where
  "test_config =
     \<lparr> clientId = ''test-client-id'', clientSecret = ''test-client-secret'',
       tokenUrl = ''https://wwwcie.ups.com/security/v1/oauth/token'', cfg_auth_timeout = None \<rparr>"

definition token_response :: "string \<Rightarrow> int \<Rightarrow> UPSTokenResponse" where
  "token_response tok lifetime =
     \<lparr> access_token = Some tok, token_type = ''Bearer'', expires_in = lifetime \<rparr>"

definition token_response_without_access_token :: UPSTokenResponse where
  "token_response_without_access_token =
     \<lparr> access_token = None, token_type = ''Bearer'', expires_in = 3600 \<rparr>"

text \<open>A connection failure as the tests raise it, and the library's error for a 429 of the token endpoint.\<close>

definition connection_error :: RawError where
  "connection_error =
     \<lparr> isAxiosError_prop = None, response = None, code = None,
       message = Some ''Network error'', toString = ''Error: Network error'' \<rparr>"

definition rate_limited_error :: RawError where
  "rate_limited_error =
     \<lparr> isAxiosError_prop = Some (JBool True),
       response = Some \<lparr> status = 429, data = JObj [(''error'', JStr ''Too many requests'')],
                         headers = None \<rparr>,
       code = Some ''ERR_BAD_REQUEST'', message = Some ''Request failed with status code 429'',
       toString = ''AxiosError: Request failed with status code 429'' \<rparr>"

text \<open>
  A fresh provider on which three callers ask for a token at second 1000; then the exchange
  ends at second 1001, either with a token of 3600 seconds or with a connection failure.
\<close>

definition world_pending :: World where
  "world_pending = snd (getToken_calls [1000, 1000, 1000] (new_World test_config))"

definition world_first_settled :: World where
  "world_first_settled =
     settle 1001 (Inr (token_response ''test-access-token-abc123'' 3600)) world_pending"

definition world_first_failed :: World where
  "world_first_failed = settle 1001 (Inl (Raw connection_error)) world_pending"

text \<open>The same failure, before the caller that started the acquisition has resumed.\<close>

definition world_failed_owner_suspended :: World where
  "world_failed_owner_suspended = exchange_ends 1001 (Inl (Raw connection_error)) world_pending"

text \<open>
  After the successful acquisition, \<^verbatim>\<open>refreshToken\<close> is called at second 1002 and its exchange
  ends at second 1003 with a token of the given lifetime.
\<close>

definition world_refreshing :: World where
  "world_refreshing = snd (refreshToken 1002 world_first_settled)"

definition world_refreshed :: "int \<Rightarrow> World" where
  "world_refreshed lifetime =
     settle 1003 (Inr (token_response ''refreshed-token'' lifetime)) world_refreshing"

section \<open>The resilient transport\<close>

subsection \<open>Auxiliary facts\<close>

text \<open>
  Fed the library's own error, the retry loop stops at the ceiling: four invocations,
  sleeping 1000, 2000 and 4000 ms in between, and the error is rethrown as it is.
\<close>

lemma requestWithRetry_raw_503:
  "requestWithRetry client_3_1000
     (\<lambda>k. Inl (Raw (axios_error 503 (JStr ''Service Unavailable'') []))) 0 \<lparr>calls = 0, sleeps = []\<rparr>
   = (\<lparr>calls = 4, sleeps = [1000, 2000, 4000]\<rparr>,
      Inl (Raw (axios_error 503 (JStr ''Service Unavailable'') [])))"
  by (simp add: client_3_1000_def new_HttpClient_def number_or_def retry_tests_def
      axios_error_def axios_isAxiosError_def)

text \<open>
  Behind the response interceptor the loop never sees that error: every rejection reaches
  it as a class of the taxonomy, which \<^verbatim>\<open>shouldRetry\<close> turns down. Whatever the configuration
  and the wire, a request makes one exchange and never sleeps.
\<close>

lemma HttpClient_request_one_exchange:
  "calls (fst (HttpClient_request c wire)) = 1 \<and> sleeps (fst (HttpClient_request c wire)) = []"
  by (simp add: HttpClient_request_def client_request_def split: sum.split)

text \<open>
  The kinds \<^verbatim>\<open>handleError\<close> assigns to the library's error for a response: RateLimit for 429,
  Network from 500 on, Business or Response for the other statuses from 400 to 499.
\<close>

lemma handleError_kind_429:
  "axios_isAxiosError e \<Longrightarrow> response e = Some r \<Longrightarrow> status r = 429 \<Longrightarrow>
   kind (handleError e) = RateLimit"
  by (simp add: handleError_def Let_def)

lemma handleError_kind_5xx:
  "axios_isAxiosError e \<Longrightarrow> response e = Some r \<Longrightarrow> status r \<ge> 500 \<Longrightarrow>
   kind (handleError e) = Network"
  by (simp add: handleError_def Let_def)

lemma handleError_kind_4xx:
  "axios_isAxiosError e \<Longrightarrow> response e = Some r \<Longrightarrow> 400 \<le> status r \<Longrightarrow> status r < 500 \<Longrightarrow>
   status r \<noteq> 429 \<Longrightarrow> kind (handleError e) = Business \<or> kind (handleError e) = Response"
  by (simp add: handleError_def Let_def)

text \<open>
  The field each of these kinds adds never holds what the response gave: in every error
  \<^verbatim>\<open>handleError\<close> throws, \<^verbatim>\<open>retryAfter\<close>, \<^verbatim>\<open>statusCode\<close> and \<^verbatim>\<open>response\<close> are the string
  \<^verbatim>\<open>UNKNOWN\<close> and a Business error's \<^verbatim>\<open>code\<close> is the string \<^verbatim>\<open>UPS\<close>.
\<close>

lemma handleError_retryAfter_UNKNOWN:
  "kind (handleError e) = RateLimit \<longrightarrow> retryAfter (handleError e) = JStr ''UNKNOWN''"
  by (simp add: handleError_def Let_def)

lemma handleError_statusCode_UNKNOWN:
  "kind (handleError e) = Network \<longrightarrow> statusCode (handleError e) = JStr ''UNKNOWN''"
  by (simp add: handleError_def Let_def)

lemma handleError_code_UPS:
  "kind (handleError e) = Business \<longrightarrow> code_of (handleError e) = ''UPS''"
  by (simp add: handleError_def Let_def)

lemma handleError_response_UNKNOWN:
  "kind (handleError e) = Response \<longrightarrow> response_of (handleError e) = JStr ''UNKNOWN''"
  by (simp add: handleError_def Let_def)

subsection \<open>Retry ceiling\<close>

text \<open>
  Claim C2 says that with \<^verbatim>\<open>maxRetries = 3\<close> a request against a wire that always answers 503
  makes four attempts, with delays of 1 s, 2 s and 4 s, and then raises a Network-kind error.
  Evaluated on that input, the client makes a single exchange, sleeps not at all, and raises
  the Network-kind error at once.
\<close>

theorem HttpClient_request_always_503:
  "HttpClient_request client_3_1000 (\<lambda>k. Inl (axios_error 503 (JStr ''Service Unavailable'') []))
   = (\<lparr>calls = 1, sleeps = []\<rparr>,
      Inl (Carrier (CarrierNetworkError ''Server error: Request failed with status code 503''
             (JStr ''UNKNOWN'') (JStr ''ERR_BAD_RESPONSE'') (Some (CauseVal (JNum 503))))))"
  by (simp add: HttpClient_request_def client_request_def handleError_def axios_error_def
      axios_isAxiosError_def js_of_string_option_def template_string_def string_of_int_def
      digit_char_def)

subsection \<open>Classification\<close>

text \<open>
  Claim C3 says that a 429 is raised as a RateLimit-kind error whose retry-after field is the
  integer parsed from the \<^verbatim>\<open>retry-after\<close> header. For a 429 with \<^verbatim>\<open>retry-after: 30\<close> the error
  is of kind RateLimit, but its \<^verbatim>\<open>retryAfter\<close> field is the string \<^verbatim>\<open>UNKNOWN\<close>; the parsed 30 is
  its \<^verbatim>\<open>originalError\<close>.
\<close>

theorem handleError_429_retry_after:
  "handleError (axios_error 429 JNull [(''retry-after'', ''30'')])
     = CarrierRateLimitError ''Request rate limited'' (JStr ''UNKNOWN'') (JStr ''ERR_BAD_REQUEST'')
         (Some (CauseVal (JNum 30)))
   \<and> kind (handleError (axios_error 429 JNull [(''retry-after'', ''30'')])) = RateLimit
   \<and> retryAfter (handleError (axios_error 429 JNull [(''retry-after'', ''30'')])) = JStr ''UNKNOWN''
   \<and> retryAfter (handleError (axios_error 429 JNull [(''retry-after'', ''30'')])) \<noteq> JNum 30"
  by (simp add: handleError_def axios_error_def axios_isAxiosError_def js_of_string_option_def
      parsed_retry_after_def retry_after_header_def parseInt10_def is_space_def is_digit_def
      digits_value_def digit_value_def)

text \<open>
  Claim C4 says that a status of 500 or more is raised as a Network-kind error whose
  \<^verbatim>\<open>statusCode\<close> field carries the status. For a 502 the error is of kind Network, but its
  \<^verbatim>\<open>statusCode\<close> field is the string \<^verbatim>\<open>UNKNOWN\<close>; the 502 is its \<^verbatim>\<open>originalError\<close>.
\<close>

theorem handleError_502_statusCode:
  "handleError (axios_error 502 (JStr ''Bad Gateway'') [])
     = CarrierNetworkError ''Server error: Request failed with status code 502''
         (JStr ''UNKNOWN'') (JStr ''ERR_BAD_RESPONSE'') (Some (CauseVal (JNum 502)))
   \<and> kind (handleError (axios_error 502 (JStr ''Bad Gateway'') [])) = Network
   \<and> statusCode (handleError (axios_error 502 (JStr ''Bad Gateway'') [])) = JStr ''UNKNOWN''
   \<and> statusCode (handleError (axios_error 502 (JStr ''Bad Gateway'') [])) \<noteq> JNum 502"
  by (simp add: handleError_def axios_error_def axios_isAxiosError_def js_of_string_option_def
      template_string_def string_of_int_def digit_char_def)

text \<open>
  Claim C5 says that a 4xx other than 429 is raised as a Business-kind error carrying the code
  and the message of the first entry of the carrier's error envelope, and otherwise as a
  Response-kind error carrying the raw body. For a 400 with the envelope
  \<^verbatim>\<open>{response: {errors: [{code: '111210', message: ...}]}}\<close> the error is of kind Business and has
  the entry's message, but its \<^verbatim>\<open>code\<close> is the string \<^verbatim>\<open>UPS\<close>; the entry's code is in its
  \<^verbatim>\<open>carrier\<close> field. For a 404 with the body \<^verbatim>\<open>Not Found\<close> the error is of kind Response, but
  its \<^verbatim>\<open>response\<close> field is the string \<^verbatim>\<open>UNKNOWN\<close>; the body is its \<^verbatim>\<open>originalError\<close>.
\<close>

theorem handleError_4xx_fields:
  "handleError (axios_error 400 ups_error_body [])
     = CarrierBusinessError ''The requested service is unavailable'' ''UPS'' (JStr ''111210'')
         (Some (CauseVal ups_error_body))
   \<and> kind (handleError (axios_error 400 ups_error_body [])) = Business
   \<and> code_of (handleError (axios_error 400 ups_error_body [])) = ''UPS''
   \<and> code_of (handleError (axios_error 400 ups_error_body [])) \<noteq> ''111210''
   \<and> handleError (axios_error 404 (JStr ''Not Found'') [])
     = CarrierResponseError ''Client error: Request failed with status code 404''
         (JStr ''UNKNOWN'') (JStr ''ERR_BAD_REQUEST'') (Some (CauseVal (JStr ''Not Found'')))
   \<and> kind (handleError (axios_error 404 (JStr ''Not Found'') [])) = Response
   \<and> response_of (handleError (axios_error 404 (JStr ''Not Found'') [])) = JStr ''UNKNOWN''"
  by (simp add: handleError_def axios_error_def axios_isAxiosError_def js_of_string_option_def
      template_string_def string_of_int_def digit_char_def ups_error_body_def first_ups_error_def
      opt_prop_def opt_index0_def)

subsection \<open>Configuration\<close>

text \<open>
  Claim C10: a configured value of zero is replaced by the default, exactly as an absent
  value is. With \<^verbatim>\<open>maxRetries = 0\<close> the client's retry budget is 3, with \<^verbatim>\<open>retryDelay = 0\<close> its
  base delay is 1000 ms, with \<^verbatim>\<open>timeout = 0\<close> its timeout is 30000 ms; an authentication
  provider configured with \<^verbatim>\<open>timeout = 0\<close> has a timeout of 10000 ms.
\<close>

theorem zero_configuration_defaults:
  "maxRetries (new_HttpClient (cfg\<lparr>cfg_maxRetries := Some 0\<rparr>)) = 3
   \<and> retryDelay (new_HttpClient (cfg\<lparr>cfg_retryDelay := Some 0\<rparr>)) = 1000
   \<and> timeout (new_HttpClient (cfg\<lparr>cfg_timeout := Some 0\<rparr>)) = 30000
   \<and> httpTimeout (new_UPSAuthProvider (acfg\<lparr>cfg_auth_timeout := Some 0\<rparr>)) = 10000
   \<and> new_HttpClient (cfg\<lparr>cfg_maxRetries := Some 0\<rparr>) = new_HttpClient (cfg\<lparr>cfg_maxRetries := None\<rparr>)
   \<and> new_HttpClient (cfg\<lparr>cfg_retryDelay := Some 0\<rparr>) = new_HttpClient (cfg\<lparr>cfg_retryDelay := None\<rparr>)
   \<and> new_HttpClient (cfg\<lparr>cfg_timeout := Some 0\<rparr>) = new_HttpClient (cfg\<lparr>cfg_timeout := None\<rparr>)
   \<and> httpTimeout (new_UPSAuthProvider (acfg\<lparr>cfg_auth_timeout := Some 0\<rparr>))
       = httpTimeout (new_UPSAuthProvider (acfg\<lparr>cfg_auth_timeout := None\<rparr>))"
  by (simp add: new_HttpClient_def new_UPSAuthProvider_def number_or_def)

section \<open>The credential lifecycle\<close>

subsection \<open>Auxiliary facts\<close>

lemma hasValidToken_tokenPromise [simp]:
  "hasValidToken now (a\<lparr>tokenPromise := p\<rparr>) = hasValidToken now a"
  by (simp add: hasValidToken_def)

lemma acquireToken_catch_Auth: "kind (acquireToken_catch x) = Auth"
  by (cases x) (simp_all add: Let_def)

lemma acquireToken_resume_failure:
  "acquireToken_resume now outcome a = (Inl e, a') \<Longrightarrow> kind e = Auth \<and> cachedToken a' = None"
  by (auto simp: acquireToken_resume_def acquireToken_catch_Auth simp del: acquireToken_catch.simps
      split: sum.splits option.splits if_splits)


lemma getToken_owner:
  "tokenPromise (auth w) = None \<Longrightarrow> \<not> hasValidToken now (auth w) \<Longrightarrow>
   getToken now w =
     (Owner (length (posts w)),
      w\<lparr>posts := posts w @ [(tokenUrl (config (auth w)), ''grant_type=client_credentials'')],
        inflight := Some (length (posts w)),
        auth := (auth w)\<lparr>tokenPromise := Some (length (posts w))\<rparr>\<rparr>)"
  by (simp add: getToken_def acquireToken_def)







lemma exchange_ends_in_flight:
  "inflight w = Some p \<Longrightarrow>
   exchange_ends t outcome w =
     w\<lparr>auth := snd (acquireToken_resume t outcome (auth w)),
       inflight := None,
       settled := (settled w)(p \<mapsto> fst (acquireToken_resume t outcome (auth w)))\<rparr>"
  by (simp add: exchange_ends_def split: prod.split)


lemma settle_in_flight:
  "inflight w = Some p \<Longrightarrow>
   settle t outcome w =
     w\<lparr>auth := getToken_finally (snd (acquireToken_resume t outcome (auth w))),
       inflight := None,
       settled := (settled w)(p \<mapsto> fst (acquireToken_resume t outcome (auth w)))\<rparr>"
  by (simp add: settle_def owner_resumes_def exchange_ends_in_flight)

lemmas world_defs = world_pending_def world_first_settled_def world_first_failed_def
  world_failed_owner_suspended_def
  world_refreshing_def world_refreshed_def new_World_def new_UPSAuthProvider_def test_config_def
  token_response_def connection_error_def rate_limited_error_def getToken_def acquireToken_def
  hasValidToken_def settle_def exchange_ends_def owner_resumes_def acquireToken_resume_def
  getToken_finally_def number_or_def
  REFRESH_BUFFER_SECONDS_def refreshToken_def clearToken_def axios_isAxiosError_def

text \<open>
  Between the two steps: the exchange has failed and its owner has not resumed yet. The cache
  is empty and \<^verbatim>\<open>tokenPromise\<close> still holds the settled promise, so a call at that moment is
  handed that promise, observes its error and issues no exchange; once the owner has resumed
  the state is the one \<open>settle\<close> gives.
\<close>

lemma getToken_before_owner_resumes:
  "cachedToken (auth world_failed_owner_suspended) = None
   \<and> tokenPromise (auth world_failed_owner_suspended) = Some 0
   \<and> getToken 1001 world_failed_owner_suspended = (Awaiting 0, world_failed_owner_suspended)
   \<and> observed world_failed_owner_suspended (Awaiting 0)
       = Some (Inl (CarrierAuthError ''Unexpected error during token acquisition: Error: Network error''
                      (JStr ''UPS'') (Some (CauseRaw connection_error))))
   \<and> length (posts world_failed_owner_suspended) = 1
   \<and> owner_resumes 0 world_failed_owner_suspended = world_first_failed"
  by (simp add: world_defs)

subsection \<open>Expiry buffer\<close>

text \<open>
  Claim C6: for a cached credential, \<^verbatim>\<open>hasValidToken\<close> is true exactly when the clock is below
  the credential's expiry minus 300 seconds, and \<^verbatim>\<open>getTimeUntilExpiry\<close> is the remaining
  lifetime, never below zero and with no buffer taken off. For a credential of 600 seconds
  acquired at time \<open>T\<close>, \<^verbatim>\<open>hasValidToken\<close> is true from \<open>T\<close> up to but not including \<open>T + 300\<close>,
  false from \<open>T + 300\<close> on, and the remaining lifetime is \<open>600 - (now - T)\<close> or zero.
\<close>

theorem buffer_correctness:
  assumes "cachedToken a = Some tok"
      and "access_token d = Some s" and "s \<noteq> []" and "expires_in d = 600"
  shows "(hasValidToken now a \<longleftrightarrow> now < expiresAt tok - 300)
       \<and> getTimeUntilExpiry now a = max 0 (expiresAt tok - now)
       \<and> (T \<le> now \<and> now < T + 300 \<longrightarrow>
            hasValidToken now (snd (acquireToken_resume T (Inr d) b)))
       \<and> (T + 300 \<le> now \<longrightarrow> \<not> hasValidToken now (snd (acquireToken_resume T (Inr d) b)))
       \<and> getTimeUntilExpiry now (snd (acquireToken_resume T (Inr d) b)) = max 0 (600 - (now - T))"
  using assms
  by (simp add: hasValidToken_def getTimeUntilExpiry_def REFRESH_BUFFER_SECONDS_def
      acquireToken_resume_def)

text \<open>
  A token of 600 seconds acquired at second 1000 is valid at 1000 and at 1299 and no longer
  at 1300, when 300 seconds of it remain; the cached token of 3600 seconds acquired at second
  1001 is valid at 4300 and not at 4301.
\<close>

theorem buffer_correctness_witness:
  "hasValidToken 1000 (snd (acquireToken_resume 1000 (Inr (token_response ''buffered-token'' 600))
       (new_UPSAuthProvider test_config)))
   \<and> hasValidToken 1299 (snd (acquireToken_resume 1000 (Inr (token_response ''buffered-token'' 600))
       (new_UPSAuthProvider test_config)))
   \<and> \<not> hasValidToken 1300 (snd (acquireToken_resume 1000 (Inr (token_response ''buffered-token'' 600))
       (new_UPSAuthProvider test_config)))
   \<and> getTimeUntilExpiry 1299 (snd (acquireToken_resume 1000 (Inr (token_response ''buffered-token'' 600))
       (new_UPSAuthProvider test_config))) = 301
   \<and> getTimeUntilExpiry 1300 (snd (acquireToken_resume 1000 (Inr (token_response ''buffered-token'' 600))
       (new_UPSAuthProvider test_config))) = 300
   \<and> getTimeUntilExpiry 1700 (snd (acquireToken_resume 1000 (Inr (token_response ''buffered-token'' 600))
       (new_UPSAuthProvider test_config))) = 0
   \<and> hasValidToken 4300 (auth world_first_settled)
   \<and> \<not> hasValidToken 4301 (auth world_first_settled)
   \<and> getTimeUntilExpiry 4301 (auth world_first_settled) = 300"
  using buffer_correctness [of "auth world_first_settled"
      "\<lparr> accessToken = ''test-access-token-abc123'', tokenType = ''Bearer'', expiresIn = 3600,
         expiresAt = 4601 \<rparr>"
      "token_response ''buffered-token'' 600" "''buffered-token''" 4301 1000
      "new_UPSAuthProvider test_config"]
    buffer_correctness [of "auth world_first_settled"
      "\<lparr> accessToken = ''test-access-token-abc123'', tokenType = ''Bearer'', expiresIn = 3600,
         expiresAt = 4601 \<rparr>"
      "token_response ''buffered-token'' 600" "''buffered-token''" 1299 1000
      "new_UPSAuthProvider test_config"]
  by (simp add: world_defs getTimeUntilExpiry_def)

subsection \<open>Failed acquisitions\<close>

text \<open>
  Claim C7: when the token response has no \<^verbatim>\<open>access_token\<close>, the caller of \<^verbatim>\<open>getToken\<close> is
  rejected with an error of kind Auth; and whatever the exchange ends with, a caller that is
  rejected is rejected with an error of kind Auth and no credential is cached afterwards.
  The caller is one that finds neither a valid token nor an acquisition in flight, so that
  its call starts the acquisition.
\<close>

theorem acquisition_failure_leaves_no_credential:
  assumes "tokenPromise (auth w) = None" and "\<not> hasValidToken now (auth w)"
  shows "(access_token d = None \<longrightarrow>
            (\<exists>e. observed (settle t (Inr d) (snd (getToken now w))) (fst (getToken now w))
                    = Some (Inl e) \<and> kind e = Auth)
            \<and> cachedToken (auth (settle t (Inr d) (snd (getToken now w)))) = None)
       \<and> (\<forall>e. observed (settle t outcome (snd (getToken now w))) (fst (getToken now w))
                 = Some (Inl e)
              \<longrightarrow> kind e = Auth
                \<and> cachedToken (auth (settle t outcome (snd (getToken now w)))) = None)"
proof -
  let ?w1 = "snd (getToken now w)"
  have tk: "fst (getToken now w) = Owner (length (posts w))"
    and slot: "inflight ?w1 = Some (length (posts w))"
    using assms by (simp_all add: getToken_owner)
  have obs: "observed (settle t' out ?w1) (fst (getToken now w))
               = Some (fst (acquireToken_resume t' out (auth ?w1)))" for t' out
    by (simp add: tk settle_in_flight [OF slot])
  have cache: "cachedToken (auth (settle t' out ?w1))
               = cachedToken (snd (acquireToken_resume t' out (auth ?w1)))" for t' out
    by (simp add: settle_in_flight [OF slot] getToken_finally_def)
  have fail: "fst (acquireToken_resume t' out a) = Inl e \<Longrightarrow>
              kind e = Auth \<and> cachedToken (snd (acquireToken_resume t' out a)) = None"
    for t' out a e
    using acquireToken_resume_failure [of t' out a e "snd (acquireToken_resume t' out a)"]
    by (cases "acquireToken_resume t' out a") simp
  have missing: "access_token d = None \<Longrightarrow> \<exists>e. fst (acquireToken_resume t (Inr d) a) = Inl e"
    for a
    by (simp add: acquireToken_resume_def)
  show ?thesis
  proof (intro conjI impI allI)
    assume "access_token d = None"
    then obtain e where e: "fst (acquireToken_resume t (Inr d) (auth ?w1)) = Inl e"
      using missing by blast
    with fail [OF e]
    show "\<exists>e. observed (settle t (Inr d) ?w1) (fst (getToken now w)) = Some (Inl e) \<and> kind e = Auth"
      by (simp add: obs)
    from fail [OF e] show "cachedToken (auth (settle t (Inr d) ?w1)) = None"
      by (simp add: cache)
  next
    fix e
    assume "observed (settle t outcome ?w1) (fst (getToken now w)) = Some (Inl e)"
    then have e: "fst (acquireToken_resume t outcome (auth ?w1)) = Inl e"
      by (simp add: obs)
    from fail [OF e] show "kind e = Auth"
      by simp
    from fail [OF e] show "cachedToken (auth (settle t outcome ?w1)) = None"
      by (simp add: cache)
  qed
qed

text \<open>
  On a fresh provider, a response without \<^verbatim>\<open>access_token\<close> and a connection failure both
  reject the caller with a \<^verbatim>\<open>CarrierAuthError\<close> and leave the cache empty.
\<close>

theorem acquisition_failure_leaves_no_credential_witness:
  "observed (settle 1001 (Inr token_response_without_access_token)
               (snd (getToken 1000 (new_World test_config))))
       (fst (getToken 1000 (new_World test_config)))
     = Some (Inl (CarrierAuthError
         ''Unexpected error during token acquisition: CarrierAuthError: Invalid token response: missing access_token''
         (JStr ''UPS'') (Some (CauseErr (missing_access_token token_response_without_access_token)))))
   \<and> cachedToken (auth (settle 1001 (Inr token_response_without_access_token)
                          (snd (getToken 1000 (new_World test_config))))) = None
   \<and> observed (settle 1001 (Inl (Raw connection_error)) (snd (getToken 1000 (new_World test_config))))
       (fst (getToken 1000 (new_World test_config)))
     = Some (Inl (CarrierAuthError ''Unexpected error during token acquisition: Error: Network error''
         (JStr ''UPS'') (Some (CauseRaw connection_error))))
   \<and> cachedToken (auth (settle 1001 (Inl (Raw connection_error))
                          (snd (getToken 1000 (new_World test_config))))) = None"
  using acquisition_failure_leaves_no_credential [of "new_World test_config" 1000
      token_response_without_access_token 1001 "Inl (Raw connection_error)"]
  by (simp add: world_defs token_response_without_access_token_def missing_access_token_def
      CarrierError_toString_def opt_prop_def)

text \<open>
  Claim C8: when the token exchange fails with status 429, the acquisition raises an error of
  kind Auth, not RateLimit, whose message says that authentication is rate limited; it
  carries the body of the response, and no credential is cached.
\<close>

theorem token_endpoint_429_is_Auth:
  assumes "response e = Some r" and "status r = 429"
  shows "acquireToken_resume now (Inl (Raw e)) a
           = (Inl (CarrierAuthError ''Authentication rate limited by UPS'' (JStr ''UPS'')
                     (Some (CauseVal (data r)))),
              a\<lparr>cachedToken := None\<rparr>)
       \<and> kind (acquireToken_catch (Raw e)) = Auth
       \<and> kind (acquireToken_catch (Raw e)) \<noteq> RateLimit"
  using assms by (simp add: acquireToken_resume_def Let_def)

text \<open>The library's error for a 429 of the token endpoint, while three callers wait.\<close>

theorem token_endpoint_429_is_Auth_witness:
  "acquireToken_resume 1001 (Inl (Raw rate_limited_error)) (auth world_pending)
     = (Inl (CarrierAuthError ''Authentication rate limited by UPS'' (JStr ''UPS'')
               (Some (CauseVal (JObj [(''error'', JStr ''Too many requests'')])))),
        (auth world_pending)\<lparr>cachedToken := None\<rparr>)
   \<and> kind (acquireToken_catch (Raw rate_limited_error)) = Auth"
  using token_endpoint_429_is_Auth [of rate_limited_error
      "\<lparr> status = 429, data = JObj [(''error'', JStr ''Too many requests'')], headers = None \<rparr>"
      1001 "auth world_pending"]
  by (simp add: world_defs)

subsection \<open>Single flight\<close>




subsection \<open>Forced refresh\<close>

text \<open>
  Claim C9 says that after a successful \<^verbatim>\<open>getToken\<close>, \<^verbatim>\<open>refreshToken\<close> issues a second exchange,
  returns a token, and \<^verbatim>\<open>hasValidToken\<close> is true afterwards. The last part fails when the
  refreshed credential does not outlive the buffer: after the acquisition that ended at
  second 1001, \<^verbatim>\<open>refreshToken\<close> at second 1002 issues the second exchange, which ends at second
  1003 with a token of 60 seconds; the caller gets that token and \<^verbatim>\<open>hasValidToken\<close> is false.
\<close>

theorem refreshToken_short_lifetime_counterexample:
  "observed world_first_settled (Owner 0) = Some (Inr ''test-access-token-abc123'')
   \<and> fst (refreshToken 1002 world_first_settled) = Owner 1
   \<and> length (posts (world_refreshed 60)) = 2
   \<and> observed (world_refreshed 60) (Owner 1) = Some (Inr ''refreshed-token'')
   \<and> \<not> hasValidToken 1003 (auth (world_refreshed 60))"
  by (simp add: world_defs)

text \<open>
  Claim C9, amended. \<^verbatim>\<open>refreshToken\<close> is \<^verbatim>\<open>getToken\<close> on the provider with its cache cleared.
  Called while no acquisition is in flight (as after any \<^verbatim>\<open>getToken\<close> that has settled),
  whether the cached credential is valid or not, it leaves the cache empty and issues one
  more exchange, which the caller awaits. When that exchange ends at time \<open>t\<close> with a token,
  the caller gets that token, no further exchange was issued, and \<^verbatim>\<open>hasValidToken\<close> is true
  exactly while the clock is below \<open>t\<close> plus the token's lifetime minus 300 seconds.
\<close>

theorem refreshToken_forces_exchange:
  fixes w :: World and now t :: int and d :: UPSTokenResponse
  defines "w1 \<equiv> snd (refreshToken now w)"
  defines "w2 \<equiv> settle t (Inr d) w1"
  assumes idle: "tokenPromise (auth w) = None"
  shows "refreshToken now w = getToken now (w\<lparr>auth := clearToken (auth w)\<rparr>)
       \<and> cachedToken (auth w1) = None
       \<and> fst (refreshToken now w) = Owner (length (posts w))
       \<and> length (posts w1) = length (posts w) + 1
       \<and> (\<forall>s. access_token d = Some s \<and> s \<noteq> [] \<longrightarrow>
             observed w2 (fst (refreshToken now w)) = Some (Inr s)
             \<and> length (posts w2) = length (posts w) + 1
             \<and> (\<forall>now'. hasValidToken now' (auth w2) \<longleftrightarrow> now' < t + expires_in d - 300))"
proof -
  let ?w0 = "w\<lparr>auth := clearToken (auth w)\<rparr>"
  have idle0: "tokenPromise (auth ?w0) = None"
    using idle by (simp add: clearToken_def)
  have stale0: "\<not> hasValidToken now (auth ?w0)"
    by (simp add: clearToken_def hasValidToken_def)
  note own = getToken_owner [OF idle0 stale0]
  have tk: "fst (refreshToken now w) = Owner (length (posts w))"
    by (simp add: refreshToken_def own)
  have slot: "inflight w1 = Some (length (posts w))"
    by (simp add: w1_def refreshToken_def own)
  have cache: "cachedToken (auth w1) = None"
    by (simp add: w1_def refreshToken_def own) (simp add: clearToken_def)
  have posts1: "length (posts w1) = length (posts w) + 1"
    by (simp add: w1_def refreshToken_def own)
  have after: "observed w2 (fst (refreshToken now w)) = Some (Inr s)
             \<and> length (posts w2) = length (posts w) + 1
             \<and> (\<forall>now'. hasValidToken now' (auth w2) \<longleftrightarrow> now' < t + expires_in d - 300)"
    if "access_token d = Some s \<and> s \<noteq> []" for s
    using that posts1
    by (simp add: w2_def tk settle_in_flight [OF slot] acquireToken_resume_def
        getToken_finally_def hasValidToken_def REFRESH_BUFFER_SECONDS_def)
  have "refreshToken now w = getToken now ?w0"
    by (simp add: refreshToken_def)
  with tk cache posts1 after show ?thesis
    by blast
qed

text \<open>
  After the acquisition that ended at second 1001 the cached token is valid at second 1002;
  \<^verbatim>\<open>refreshToken\<close> issues the second exchange all the same. It ends at second 1003 with a token
  of 3600 seconds, which is valid from then until second 4302.
\<close>

theorem refreshToken_forces_exchange_witness:
  "hasValidToken 1002 (auth world_first_settled)
   \<and> fst (refreshToken 1002 world_first_settled) = Owner 1
   \<and> length (posts world_refreshing) = 2
   \<and> observed (world_refreshed 3600) (Owner 1) = Some (Inr ''refreshed-token'')
   \<and> hasValidToken 1003 (auth (world_refreshed 3600))
   \<and> hasValidToken 4302 (auth (world_refreshed 3600))
   \<and> \<not> hasValidToken 4303 (auth (world_refreshed 3600))"
  using refreshToken_forces_exchange [of world_first_settled 1002
      "token_response ''refreshed-token'' 3600" 1003]
  by (simp add: world_defs)

end
